theory Spec2Isabelle
  imports Main "HOL-Library.Word"
begin

section \<open>Bytes and errors\<close>

text \<open>
  The elements of a Python \<open>bytes\<close> or \<open>bytearray\<close> are the integers 0..255: an 8-bit
  word. Python's own integers are unbounded: \<open>int\<close>. Every \<open>raise\<close> of the source is a
  constructor of \<open>error\<close>; \<open>ValueError\<close> carries what the message of
  \<open>range_validate_int\<close> names: the parameter, the value received and the two bounds.
  \<open>OverflowError\<close> is what \<open>int.to_bytes\<close> raises for a value that does not fit.
\<close>

type_synonym byte = "8 word"

datatype error =
    ValueError string int int int
  | OverflowError
  | TypeError
  | IOError
  | KeyError string
  | IndexError

definition and_then :: "error + 'a \<Rightarrow> ('a \<Rightarrow> error + 'b) \<Rightarrow> error + 'b" where
  "and_then r f = (case r of Inl e \<Rightarrow> Inl e | Inr x \<Rightarrow> f x)"

section \<open>Frame codec\<close>

text \<open>
  \<open>escape_message\<close>: the loop over \<open>msg\<close> appends to \<open>result\<close>; the test of the source
  is \<open>c >= 0xfc\<close>.
\<close>

fun escape_loop :: "byte list \<Rightarrow> byte list \<Rightarrow> byte list" where
  "escape_loop result [] = result"
| "escape_loop result (c # msg) =
     escape_loop ((if c \<ge> 0xfc then result @ [0xfc] else result) @ [c]) msg"

definition escape_message :: "byte list \<Rightarrow> byte list" where
  "escape_message msg = escape_loop [] msg"

text \<open>The bytes \<open>MaxyController.send_message\<close> passes to \<open>serial.write\<close>.\<close>

definition frame :: "byte list \<Rightarrow> byte list" where
  "frame msg = [0xfd] @ escape_message msg @ [0xfe]"

text \<open>
  The escape routine as the specification words it (section 4.1): only the byte \<open>0xFC\<close> is
  prefixed. It is compared with \<open>escape_message\<close> below.
\<close>

definition escape_spec :: "byte list \<Rightarrow> byte list" where
  "escape_spec msg = concat (map (\<lambda>c. if c = 0xfc then [0xfc, c] else [c]) msg)"

section \<open>Message encoder\<close>

text \<open>
  \<open>range_validate_int\<close>: the value is an \<open>int\<close> here, so the first test of the source
  (\<open>isinstance(val, int)\<close>) always passes; what remains is the range test and its error.
\<close>

definition range_validate_int :: "int \<Rightarrow> int \<Rightarrow> int \<Rightarrow> string \<Rightarrow> error + int" where
  "range_validate_int val minimum maximum param_name =
     (if minimum \<le> val \<and> val \<le> maximum then Inr val
      else Inl (ValueError param_name val minimum maximum))"

text \<open>
  \<open>int.to_bytes(length, byteorder="big", signed)\<close>: the big-endian digits of the value in
  base 256, two's complement when signed; \<open>OverflowError\<close> when the value does not fit
  (for a length of at least 1; the source calls it with lengths 1, 2 and 4).
\<close>

fun big_endian :: "nat \<Rightarrow> int \<Rightarrow> byte list" where
  "big_endian 0 v = []"
| "big_endian (Suc n) v = big_endian n (v div 256) @ [word_of_int v]"

definition to_bytes :: "int \<Rightarrow> nat \<Rightarrow> bool \<Rightarrow> error + byte list" where
  "to_bytes v len is_signed =
     (if is_signed then
        (if - (2 ^ (8 * len - 1)) \<le> v \<and> v < 2 ^ (8 * len - 1) then Inr (big_endian len v)
         else Inl OverflowError)
      else
        (if 0 \<le> v \<and> v < 2 ^ (8 * len) then Inr (big_endian len v)
         else Inl OverflowError))"

definition MID_RESET_CONFIG :: "byte list" where "MID_RESET_CONFIG = [0x32]"
definition MID_SET_ALL_INTENSITY :: "byte list" where "MID_SET_ALL_INTENSITY = [0x33]"
definition MID_SET_MODULE_TYPE :: "byte list" where "MID_SET_MODULE_TYPE = [0x3a]"
definition MID_ENABLE_MODULE :: "byte list" where "MID_ENABLE_MODULE = [0x3b]"
definition MID_SET_MODULE_TARGET :: "byte list" where "MID_SET_MODULE_TARGET = [0x42]"
definition MID_SET_SUB_MODULE_TARGET :: "byte list" where "MID_SET_SUB_MODULE_TARGET = [0x43]"
definition MID_SET_MODULE_IMMEDIATE_TARGET :: "byte list" where
  "MID_SET_MODULE_IMMEDIATE_TARGET = [0x44]"
definition MID_SET_SUB_MODULE_IMMEDIATE_TARGET :: "byte list" where
  "MID_SET_SUB_MODULE_IMMEDIATE_TARGET = [0x45]"
definition MID_SET_MODULE_INTENSITY :: "byte list" where "MID_SET_MODULE_INTENSITY = [0x46]"
definition MID_SET_MODULE_SPEED_DIVIDER :: "byte list" where
  "MID_SET_MODULE_SPEED_DIVIDER = [0x47]"

definition reset_all_module_config_message :: "byte list" where
  "reset_all_module_config_message = MID_RESET_CONFIG"

definition set_all_module_intensity :: "int \<Rightarrow> error + byte list" where
  "set_all_module_intensity intensity =
     and_then (range_validate_int intensity 0 15 ''intensity'') (\<lambda>_.
     and_then (to_bytes intensity 1 False) (\<lambda>intensity_raw.
     Inr (MID_SET_ALL_INTENSITY @ intensity_raw)))"

definition set_module_target_message :: "int \<Rightarrow> int \<Rightarrow> error + byte list" where
  "set_module_target_message module_index target =
     and_then (range_validate_int module_index 0 63 ''module_index'') (\<lambda>_.
     and_then (range_validate_int target (- 9999999) 99999999 ''target'') (\<lambda>_.
     and_then (to_bytes module_index 1 False) (\<lambda>module_raw.
     and_then (to_bytes target 4 True) (\<lambda>target_raw.
     Inr (MID_SET_MODULE_TARGET @ module_raw @ target_raw)))))"

definition set_module_immediate_target_message :: "int \<Rightarrow> int \<Rightarrow> error + byte list" where
  "set_module_immediate_target_message module_index target =
     and_then (range_validate_int module_index 0 63 ''module_index'') (\<lambda>_.
     and_then (range_validate_int target (- 9999999) 99999999 ''target'') (\<lambda>_.
     and_then (to_bytes module_index 1 False) (\<lambda>module_raw.
     and_then (to_bytes target 4 True) (\<lambda>target_raw.
     Inr (MID_SET_MODULE_IMMEDIATE_TARGET @ module_raw @ target_raw)))))"

text \<open>The immediate variant has no range check of \<open>sub_module\<close>; the sibling below has.\<close>

definition set_sub_module_immediate_target_message ::
  "int \<Rightarrow> int \<Rightarrow> int \<Rightarrow> error + byte list" where
  "set_sub_module_immediate_target_message module_index sub_module target =
     and_then (range_validate_int module_index 0 63 ''module_index'') (\<lambda>_.
     and_then (range_validate_int target (- 9999999) 99999999 ''target'') (\<lambda>_.
     and_then (to_bytes module_index 1 False) (\<lambda>module_raw.
     and_then (to_bytes sub_module 1 False) (\<lambda>sub_module_raw.
     and_then (to_bytes target 4 True) (\<lambda>target_raw.
     Inr (MID_SET_SUB_MODULE_IMMEDIATE_TARGET @ module_raw @ sub_module_raw @ target_raw))))))"

definition set_sub_module_target_message :: "int \<Rightarrow> int \<Rightarrow> int \<Rightarrow> error + byte list" where
  "set_sub_module_target_message module_index sub_module target =
     and_then (range_validate_int module_index 0 63 ''module_index'') (\<lambda>_.
     and_then (range_validate_int sub_module 0 7 ''sub_module'') (\<lambda>_.
     and_then (range_validate_int target (- 9999999) 99999999 ''target'') (\<lambda>_.
     and_then (to_bytes module_index 1 False) (\<lambda>module_raw.
     and_then (to_bytes sub_module 1 False) (\<lambda>sub_module_raw.
     and_then (to_bytes target 4 True) (\<lambda>target_raw.
     Inr (MID_SET_SUB_MODULE_TARGET @ module_raw @ sub_module_raw @ target_raw)))))))"

text \<open>
  In the next two encoders the second check is of \<open>module_index\<close> again, as the source has
  it (lines 88 and 96), under the names "intensity" and "speed_divider"; the second
  parameter of \<open>set_module_speed_divider\<close> is called \<open>intensity\<close> in the source, and its
  opcode is \<open>MID_SET_MODULE_INTENSITY\<close>.
\<close>

definition set_module_intensity :: "int \<Rightarrow> int \<Rightarrow> error + byte list" where
  "set_module_intensity module_index intensity =
     and_then (range_validate_int module_index 0 63 ''module_index'') (\<lambda>_.
     and_then (range_validate_int module_index 0 15 ''intensity'') (\<lambda>_.
     and_then (to_bytes module_index 1 False) (\<lambda>module_raw.
     and_then (to_bytes intensity 1 False) (\<lambda>intensity_raw.
     Inr (MID_SET_MODULE_INTENSITY @ module_raw @ intensity_raw)))))"

definition set_module_speed_divider :: "int \<Rightarrow> int \<Rightarrow> error + byte list" where
  "set_module_speed_divider module_index intensity =
     and_then (range_validate_int module_index 0 63 ''module_index'') (\<lambda>_.
     and_then (range_validate_int module_index 0 65000 ''speed_divider'') (\<lambda>_.
     and_then (to_bytes module_index 1 False) (\<lambda>module_raw.
     and_then (to_bytes intensity 2 False) (\<lambda>speed_divider_raw.
     Inr (MID_SET_MODULE_INTENSITY @ module_raw @ speed_divider_raw)))))"

definition set_module_type :: "int \<Rightarrow> int \<Rightarrow> error + byte list" where
  "set_module_type module_index module_type =
     and_then (range_validate_int module_index 0 63 ''module_index'') (\<lambda>_.
     and_then (range_validate_int module_type 0 63 ''module_type'') (\<lambda>_.
     and_then (to_bytes module_index 1 False) (\<lambda>module_raw.
     and_then (to_bytes module_type 1 False) (\<lambda>module_type_raw.
     Inr (MID_SET_MODULE_TYPE @ module_raw @ module_type_raw)))))"

section \<open>Device model\<close>

definition clamp :: "int \<Rightarrow> int \<Rightarrow> int \<Rightarrow> int" where
  "clamp val min_value max_value = min max_value (max min_value val)"

text \<open>
  The module classes of the source and their class attributes. \<open>MaxyModule\<close> is the base
  class; the two subclasses override some of its attributes and inherit the others.
\<close>

datatype module_class = MaxyModule | MaxyModule_8x7seg | MaxyModule_2x4x7seg

fun SUB_MODULE_COUNT :: "module_class \<Rightarrow> nat" where
  "SUB_MODULE_COUNT MaxyModule = 1"
| "SUB_MODULE_COUNT MaxyModule_8x7seg = 1"
| "SUB_MODULE_COUNT MaxyModule_2x4x7seg = 2"

fun TARGET_MIN :: "module_class \<Rightarrow> int" where
  "TARGET_MIN MaxyModule = - 9999999"
| "TARGET_MIN MaxyModule_8x7seg = - 9999999"
| "TARGET_MIN MaxyModule_2x4x7seg = - 999"

fun TARGET_MAX :: "module_class \<Rightarrow> int" where
  "TARGET_MAX MaxyModule = 99999999"
| "TARGET_MAX MaxyModule_8x7seg = 99999999"
| "TARGET_MAX MaxyModule_2x4x7seg = 9999"

fun MODULE_TYPE_ID :: "module_class \<Rightarrow> int" where
  "MODULE_TYPE_ID MaxyModule = 0"
| "MODULE_TYPE_ID MaxyModule_8x7seg = 3"
| "MODULE_TYPE_ID MaxyModule_2x4x7seg = 4"

fun ALLOW_MAIN_MODULE_TARGET_CHANGES :: "module_class \<Rightarrow> bool" where
  "ALLOW_MAIN_MODULE_TARGET_CHANGES MaxyModule = True"
| "ALLOW_MAIN_MODULE_TARGET_CHANGES MaxyModule_8x7seg = True"
| "ALLOW_MAIN_MODULE_TARGET_CHANGES MaxyModule_2x4x7seg = False"

text \<open>
  Objects. A sub-module has its id and the cache \<open>_target\<close>; a module has its class, its
  \<open>module_index\<close>, the cache \<open>_intensity\<close> and its list of sub-modules. The back-references
  (\<open>sub_module.module\<close>, \<open>module.controller\<close>) are represented by position: a module is
  addressed by its position in \<open>controller.index\<close>, a sub-module by that position and its
  position in \<open>sub_modules\<close>.
\<close>

record maxy_sub_module =
  sub_module_id :: int
  cached_target :: int

record maxy_module =
  cls :: module_class
  module_index :: int
  cached_intensity :: int
  sub_modules :: "maxy_sub_module list"

text \<open>
  The serial port object of the external library, as far as the source uses it: whether it
  is open, and the byte sequences passed to \<open>write\<close>, oldest first. A write on an open port
  is taken to return.
\<close>

record serial_port =
  is_open :: bool
  written :: "byte list list"

datatype unit_ref = ModuleRef nat | SubModuleRef nat nat

record maxy_controller =
  serial_conn :: "serial_port option"
  index :: "maxy_module list"
  name :: "string \<rightharpoonup> unit_ref"

text \<open>\<open>MaxModuleDef\<close>; a name that is \<open>None\<close> or empty is falsy.\<close>

record module_def =
  def_name :: "string option"
  module_type :: module_class
  sub_module_names :: "string option list option"

definition truthy :: "string option \<Rightarrow> bool" where
  "truthy s = (case s of None \<Rightarrow> False | Some n \<Rightarrow> n \<noteq> [])"

definition new_controller :: maxy_controller where
  "new_controller = \<lparr>serial_conn = None, index = [], name = Map.empty\<rparr>"

definition new_sub_module :: "nat \<Rightarrow> maxy_sub_module" where
  "new_sub_module i = \<lparr>sub_module_id = int i, cached_target = 0\<rparr>"

definition new_module :: "module_class \<Rightarrow> int \<Rightarrow> maxy_module" where
  "new_module k i =
     \<lparr>cls = k, module_index = i, cached_intensity = 0,
      sub_modules = map new_sub_module [0..<SUB_MODULE_COUNT k]\<rparr>"

text \<open>
  \<open>define_modules\<close>: both collections are cleared, then the definitions are enumerated;
  a falsy definition (\<open>None\<close>) is skipped but still counts in the enumeration.
\<close>

fun name_sub_modules ::
  "(string \<rightharpoonup> unit_ref) \<Rightarrow> nat \<Rightarrow> (string option \<times> nat) list \<Rightarrow> (string \<rightharpoonup> unit_ref)" where
  "name_sub_modules nm pos [] = nm"
| "name_sub_modules nm pos ((n, sub_module_index) # rest) =
     name_sub_modules
       (if truthy n then nm(the n \<mapsto> SubModuleRef pos sub_module_index) else nm) pos rest"

fun define_loop :: "maxy_controller \<Rightarrow> nat \<Rightarrow> module_def option list \<Rightarrow> maxy_controller" where
  "define_loop c i [] = c"
| "define_loop c i (None # defs) = define_loop c (Suc i) defs"
| "define_loop c i (Some d # defs) =
     (let pos = length (index c);
          c1 = c\<lparr>index := index c @ [new_module (module_type d) (int i)]\<rparr>;
          c2 = (if truthy (def_name d)
                then c1\<lparr>name := (name c1)(the (def_name d) \<mapsto> ModuleRef pos)\<rparr> else c1);
          c3 = (case sub_module_names d of
                  None \<Rightarrow> c2
                | Some ns \<Rightarrow>
                    if SUB_MODULE_COUNT (module_type d) > 1 \<and> ns \<noteq> []
                    then c2\<lparr>name := name_sub_modules (name c2) pos
                                       (zip ns [0..<SUB_MODULE_COUNT (module_type d)])\<rparr>
                    else c2)
      in define_loop c3 (Suc i) defs)"

definition define_modules :: "maxy_controller \<Rightarrow> module_def option list \<Rightarrow> maxy_controller" where
  "define_modules c module_definitions =
     define_loop (c\<lparr>index := [], name := Map.empty\<rparr>) 0 module_definitions"

text \<open>
  Operations that write return the error raised, if any, and the controller as it is when
  they return or raise: an exception does not undo the assignments made before it.
\<close>

definition send_message :: "maxy_controller \<Rightarrow> byte list \<Rightarrow> error option \<times> maxy_controller" where
  "send_message c msg =
     (case serial_conn c of
        None \<Rightarrow> (Some IOError, c)
      | Some p \<Rightarrow>
          if is_open p
          then (None, c\<lparr>serial_conn := Some (p\<lparr>written := written p @ [frame msg]\<rparr>)\<rparr>)
          else (Some IOError, c))"

definition send_encoded ::
  "maxy_controller \<Rightarrow> error + byte list \<Rightarrow> error option \<times> maxy_controller" where
  "send_encoded c r = (case r of Inl e \<Rightarrow> (Some e, c) | Inr msg \<Rightarrow> send_message c msg)"

fun configure_loop :: "maxy_controller \<Rightarrow> maxy_module list \<Rightarrow> error option \<times> maxy_controller" where
  "configure_loop c [] = (None, c)"
| "configure_loop c (m # ms) =
     (case send_encoded c (set_module_type (module_index m) (MODULE_TYPE_ID (cls m))) of
        (Some e, c') \<Rightarrow> (Some e, c')
      | (None, c') \<Rightarrow> configure_loop c' ms)"

definition configure_module_types :: "maxy_controller \<Rightarrow> error option \<times> maxy_controller" where
  "configure_module_types c = configure_loop c (index c)"

text \<open>\<open>connect\<close>, given the port object that \<open>serial.Serial(...)\<close> returned.\<close>

definition connect :: "maxy_controller \<Rightarrow> serial_port \<Rightarrow> error option \<times> maxy_controller" where
  "connect c p = configure_module_types (c\<lparr>serial_conn := Some p\<rparr>)"

definition set_global_intensity :: "maxy_controller \<Rightarrow> int \<Rightarrow> error option \<times> maxy_controller" where
  "set_global_intensity c intensity = send_encoded c (set_all_module_intensity intensity)"

text \<open>
  The setters of \<open>MaxySubModule\<close>, of the sub-module at position \<open>si\<close> of the module at
  position \<open>mi\<close>. A position outside the collections is the \<open>IndexError\<close> of the lookup
  that would have produced the object.
\<close>

definition store_target :: "maxy_controller \<Rightarrow> nat \<Rightarrow> nat \<Rightarrow> int \<Rightarrow> maxy_controller" where
  "store_target c mi si target =
     c\<lparr>index := (index c)[mi := (index c ! mi)
          \<lparr>sub_modules := (sub_modules (index c ! mi))
             [si := (sub_modules (index c ! mi) ! si)\<lparr>cached_target := target\<rparr>]\<rparr>]\<rparr>"

definition MaxySubModule_set_target ::
  "maxy_controller \<Rightarrow> nat \<Rightarrow> nat \<Rightarrow> int \<Rightarrow> error option \<times> maxy_controller" where
  "MaxySubModule_set_target c mi si target0 =
     (if mi < length (index c) \<and> si < length (sub_modules (index c ! mi)) then
        (let m = index c ! mi; s = sub_modules m ! si;
             target = clamp target0 (TARGET_MIN (cls m)) (TARGET_MAX (cls m))
         in if target \<noteq> cached_target s
            then send_encoded (store_target c mi si target)
                   (set_sub_module_target_message (module_index m) (sub_module_id s) target)
            else (None, c))
      else (Some IndexError, c))"

definition MaxySubModule_set_immediate_target ::
  "maxy_controller \<Rightarrow> nat \<Rightarrow> nat \<Rightarrow> int \<Rightarrow> error option \<times> maxy_controller" where
  "MaxySubModule_set_immediate_target c mi si target0 =
     (if mi < length (index c) \<and> si < length (sub_modules (index c ! mi)) then
        (let m = index c ! mi; s = sub_modules m ! si;
             target = clamp target0 (TARGET_MIN (cls m)) (TARGET_MAX (cls m))
         in if target \<noteq> cached_target s
            then send_encoded (store_target c mi si target)
                   (set_sub_module_immediate_target_message
                      (module_index m) (sub_module_id s) target)
            else (None, c))
      else (Some IndexError, c))"

text \<open>The setters of \<open>MaxyModule\<close>, of the module at position \<open>mi\<close>.\<close>

definition MaxyModule_set_intensity ::
  "maxy_controller \<Rightarrow> nat \<Rightarrow> int \<Rightarrow> error option \<times> maxy_controller" where
  "MaxyModule_set_intensity c mi intensity0 =
     (if mi < length (index c) then
        (let m = index c ! mi; intensity = clamp intensity0 0 15
         in if intensity \<noteq> cached_intensity m
            then send_encoded (c\<lparr>index := (index c)[mi := m\<lparr>cached_intensity := intensity\<rparr>]\<rparr>)
                   (set_module_intensity (module_index m) intensity)
            else (None, c))
      else (Some IndexError, c))"

definition MaxyModule_set_target ::
  "maxy_controller \<Rightarrow> nat \<Rightarrow> int \<Rightarrow> error option \<times> maxy_controller" where
  "MaxyModule_set_target c mi target =
     (if mi < length (index c) then
        (if \<not> ALLOW_MAIN_MODULE_TARGET_CHANGES (cls (index c ! mi)) then (Some TypeError, c)
         else MaxySubModule_set_target c mi 0 target)
      else (Some IndexError, c))"

definition MaxyModule_set_immediate_target ::
  "maxy_controller \<Rightarrow> nat \<Rightarrow> int \<Rightarrow> error option \<times> maxy_controller" where
  "MaxyModule_set_immediate_target c mi target =
     (if mi < length (index c) then
        (if \<not> ALLOW_MAIN_MODULE_TARGET_CHANGES (cls (index c ! mi)) then (Some TypeError, c)
         else MaxySubModule_set_immediate_target c mi 0 target)
      else (Some IndexError, c))"

text \<open>
  Assignment through the name registry, \<open>controller.name[n].target = v\<close> and
  \<open>controller.name[n].immediate_target = v\<close>: the lookup of \<open>DictObject.__getitem__\<close>,
  which raises \<open>KeyError\<close> for a name that is not registered, then the setter of the
  object found.
\<close>

definition set_target_by_name ::
  "maxy_controller \<Rightarrow> string \<Rightarrow> int \<Rightarrow> error option \<times> maxy_controller" where
  "set_target_by_name c n target =
     (case name c n of
        None \<Rightarrow> (Some (KeyError n), c)
      | Some (ModuleRef mi) \<Rightarrow> MaxyModule_set_target c mi target
      | Some (SubModuleRef mi si) \<Rightarrow> MaxySubModule_set_target c mi si target)"

definition set_immediate_target_by_name ::
  "maxy_controller \<Rightarrow> string \<Rightarrow> int \<Rightarrow> error option \<times> maxy_controller" where
  "set_immediate_target_by_name c n target =
     (case name c n of
        None \<Rightarrow> (Some (KeyError n), c)
      | Some (ModuleRef mi) \<Rightarrow> MaxyModule_set_immediate_target c mi target
      | Some (SubModuleRef mi si) \<Rightarrow> MaxySubModule_set_immediate_target c mi si target)"

text \<open>What the controller has handed to the transport so far.\<close>

definition sink :: "maxy_controller \<Rightarrow> byte list list" where
  "sink c = (case serial_conn c of None \<Rightarrow> [] | Some p \<Rightarrow> written p)"

definition target_of :: "maxy_controller \<Rightarrow> nat \<Rightarrow> nat \<Rightarrow> int" where
  "target_of c mi si = cached_target (sub_modules (index c ! mi) ! si)"

text \<open>
  What one turn of the loop of \<open>escape_message\<close> appends for the byte \<open>c\<close>.
\<close>

definition escape_byte :: "byte \<Rightarrow> byte list" where
  "escape_byte c = (if c \<ge> 0xfc then [0xfc, c] else [c])"

text \<open>
  A byte sequence read from the left as an escaped region: \<open>0xFC\<close> is an escape byte and
  takes the byte after it as data; any other byte stands for itself and must be below
  \<open>0xFC\<close>. The sequence is well escaped when it can be read to its end this way, that is,
  when no \<open>0xFC\<close>, \<open>0xFD\<close>, \<open>0xFE\<close> or \<open>0xFF\<close> stands in it as data without an escape
  byte before it, and no escape byte is left without its data byte.
\<close>

fun well_escaped :: "byte list \<Rightarrow> bool" where
  "well_escaped [] = True"
| "well_escaped [c] = (c < 0xfc)"
| "well_escaped (c # d # rest) =
     (if c = 0xfc then well_escaped rest else c < 0xfc \<and> well_escaped (d # rest))"

text \<open>
  The calls the driving script can make on a controller, and the controller each leaves
  behind. The script catches what a call raises and goes on with the same controller, so
  the state after a call that raised is kept as well.
\<close>

datatype action =
    Define_modules "module_def option list"
  | Connect serial_port
  | Configure_module_types
  | Set_global_intensity int
  | Set_intensity nat int
  | Set_target nat int
  | Set_immediate_target nat int
  | Set_sub_target nat nat int
  | Set_sub_immediate_target nat nat int
  | Set_target_by_name string int
  | Set_immediate_target_by_name string int

fun step :: "maxy_controller \<Rightarrow> action \<Rightarrow> maxy_controller" where
  "step c (Define_modules defs) = define_modules c defs"
| "step c (Connect p) = snd (connect c p)"
| "step c Configure_module_types = snd (configure_module_types c)"
| "step c (Set_global_intensity v) = snd (set_global_intensity c v)"
| "step c (Set_intensity mi v) = snd (MaxyModule_set_intensity c mi v)"
| "step c (Set_target mi v) = snd (MaxyModule_set_target c mi v)"
| "step c (Set_immediate_target mi v) = snd (MaxyModule_set_immediate_target c mi v)"
| "step c (Set_sub_target mi si v) = snd (MaxySubModule_set_target c mi si v)"
| "step c (Set_sub_immediate_target mi si v) =
     snd (MaxySubModule_set_immediate_target c mi si v)"
| "step c (Set_target_by_name n v) = snd (set_target_by_name c n v)"
| "step c (Set_immediate_target_by_name n v) = snd (set_immediate_target_by_name c n v)"

definition run :: "action list \<Rightarrow> maxy_controller" where
  "run acts = foldl step new_controller acts"

text \<open>Every cached target lies within the range of its module's class.\<close>

definition targets_in_range :: "maxy_controller \<Rightarrow> bool" where
  "targets_in_range c =
     (\<forall>m \<in> set (index c). \<forall>s \<in> set (sub_modules m).
        TARGET_MIN (cls m) \<le> cached_target s \<and> cached_target s \<le> TARGET_MAX (cls m))"

text \<open>The module definitions of the driving script \<open>main.py\<close>, and a port that is open.\<close>

definition main_module_definitions :: "module_def option list" where
  "main_module_definitions =
     [Some \<lparr>def_name = Some ''Right1'', module_type = MaxyModule_8x7seg, sub_module_names = None\<rparr>,
      Some \<lparr>def_name = Some ''Right2'', module_type = MaxyModule_8x7seg, sub_module_names = None\<rparr>,
      Some \<lparr>def_name = Some ''Right3'', module_type = MaxyModule_8x7seg, sub_module_names = None\<rparr>,
      Some \<lparr>def_name = Some ''Right4'', module_type = MaxyModule_8x7seg, sub_module_names = None\<rparr>,
      Some \<lparr>def_name = Some ''Left1'', module_type = MaxyModule_8x7seg, sub_module_names = None\<rparr>,
      Some \<lparr>def_name = Some ''Left2'', module_type = MaxyModule_8x7seg, sub_module_names = None\<rparr>,
      Some \<lparr>def_name = Some ''Left3'', module_type = MaxyModule_8x7seg, sub_module_names = None\<rparr>,
      Some \<lparr>def_name = Some ''Left4'', module_type = MaxyModule_8x7seg, sub_module_names = None\<rparr>,
      Some \<lparr>def_name = Some ''tail'', module_type = MaxyModule_2x4x7seg,
            sub_module_names = Some [Some ''tail1'', Some ''tail2'']\<rparr>]"

definition open_port :: serial_port where
  "open_port = \<lparr>is_open = True, written = []\<rparr>"

definition main_controller :: maxy_controller where
  "main_controller =
     (define_modules new_controller main_module_definitions)\<lparr>serial_conn := Some open_port\<rparr>"

section \<open>Facts about the codec and the encoders\<close>

lemmas MID_defs =
  MID_RESET_CONFIG_def MID_SET_ALL_INTENSITY_def MID_SET_MODULE_TYPE_def MID_ENABLE_MODULE_def
  MID_SET_MODULE_TARGET_def MID_SET_SUB_MODULE_TARGET_def MID_SET_MODULE_IMMEDIATE_TARGET_def
  MID_SET_SUB_MODULE_IMMEDIATE_TARGET_def MID_SET_MODULE_INTENSITY_def
  MID_SET_MODULE_SPEED_DIVIDER_def

lemma and_then_simps [simp]:
  "and_then (Inl e) f = Inl e"
  "and_then (Inr x) f = f x"
  by (simp_all add: and_then_def)

subsection \<open>The escape loop\<close>

lemma escape_loop_acc: "escape_loop acc msg = acc @ concat (map escape_byte msg)"
  by (induction msg arbitrary: acc) (simp_all add: escape_byte_def)

lemma escape_message_concat: "escape_message msg = concat (map escape_byte msg)"
  by (simp add: escape_message_def escape_loop_acc)

lemma escape_message_Nil: "escape_message [] = []"
  by (simp add: escape_message_concat)

lemma escape_message_Cons: "escape_message (c # msg) = escape_byte c @ escape_message msg"
  by (simp add: escape_message_concat)

lemma escape_message_append:
  "escape_message (xs @ ys) = escape_message xs @ escape_message ys"
  by (simp add: escape_message_concat)

lemma escape_message_below_fc:
  "\<forall>c \<in> set msg. c < 0xfc \<Longrightarrow> escape_message msg = msg"
proof (induction msg)
  case Nil
  show ?case by (simp add: escape_message_Nil)
next
  case (Cons c msg)
  then have "\<not> 0xfc \<le> c" by (simp add: not_le)
  with Cons show ?case by (simp add: escape_message_Cons escape_byte_def)
qed

lemma well_escaped_escape: "well_escaped (escape_message msg)"
proof (induction msg)
  case Nil
  show ?case by (simp add: escape_message_Nil)
next
  case (Cons c msg)
  show ?case
  proof (cases "c \<ge> 0xfc")
    case True
    then show ?thesis using Cons by (simp add: escape_message_Cons escape_byte_def)
  next
    case False
    then have lt: "c < 0xfc" by simp
    then have ne: "c \<noteq> 0xfc" by auto
    show ?thesis
    proof (cases "escape_message msg")
      case Nil
      then show ?thesis using lt by (simp add: escape_message_Cons escape_byte_def)
    next
      case (Cons d rest)
      then show ?thesis using lt ne \<open>well_escaped (escape_message msg)\<close>
        by (simp add: escape_message_Cons escape_byte_def)
    qed
  qed
qed

lemma delimiter_preceded:
  "i < length (escape_message msg) \<Longrightarrow> escape_message msg ! i \<ge> 0xfd
   \<Longrightarrow> 0 < i \<and> escape_message msg ! (i - 1) = 0xfc"
proof (induction msg arbitrary: i)
  case Nil
  then show ?case by (simp add: escape_message_Nil)
next
  case (Cons c msg)
  show ?case
  proof (cases "c \<ge> 0xfc")
    case True
    then have e: "escape_message (c # msg) = 0xfc # c # escape_message msg"
      by (simp add: escape_message_Cons escape_byte_def)
    show ?thesis
    proof (cases i)
      case 0
      with Cons.prems(2) e have "(0xfd::byte) \<le> 0xfc" by simp
      then show ?thesis by simp
    next
      case (Suc k)
      show ?thesis
      proof (cases k)
        case 0
        with Suc e show ?thesis by simp
      next
        case (Suc j)
        with \<open>i = Suc k\<close> have i: "i = Suc (Suc j)" by simp
        with Cons.prems e have "j < length (escape_message msg)" "escape_message msg ! j \<ge> 0xfd"
          by simp_all
        from Cons.IH[OF this] obtain j' where "j = Suc j'" "escape_message msg ! j' = 0xfc"
          by (cases j) simp_all
        then show ?thesis using i e by simp
      qed
    qed
  next
    case False
    then have e: "escape_message (c # msg) = c # escape_message msg"
      by (simp add: escape_message_Cons escape_byte_def)
    have "c < 0xfc" using False by simp
    moreover have "(0xfc::byte) < 0xfd" by simp
    ultimately have "c < 0xfd" by (rule less_trans)
    then have lt: "\<not> 0xfd \<le> c" by simp
    show ?thesis
    proof (cases i)
      case 0
      with Cons.prems(2) e lt show ?thesis by simp
    next
      case (Suc j)
      with Cons.prems e have "j < length (escape_message msg)" "escape_message msg ! j \<ge> 0xfd"
        by simp_all
      from Cons.IH[OF this] obtain j' where "j = Suc j'" "escape_message msg ! j' = 0xfc"
        by (cases j) simp_all
      then show ?thesis using Suc e by simp
    qed
  qed
qed

text \<open>
  C2 (as amended). \<open>escape_message\<close> emits, for every byte \<open>c\<close> of its input in order,
  \<open>0xFC\<close> followed by \<open>c\<close> when \<open>c \<ge> 0xFC\<close> (the four bytes \<open>0xFC\<close>, \<open>0xFD\<close>, \<open>0xFE\<close>,
  \<open>0xFF\<close>), and \<open>c\<close> alone otherwise: the delimiters \<open>0xFD\<close> and \<open>0xFE\<close> are escaped too.
\<close>

theorem escape_message_prefixes_from_fc:
  "escape_message msg = concat (map (\<lambda>c. if c \<ge> 0xfc then [0xfc, c] else [c]) msg)
   \<and> escape_message [0xfc] = [0xfc, 0xfc]
   \<and> escape_message [0xfd] = [0xfc, 0xfd]
   \<and> escape_message [0xfe] = [0xfc, 0xfe]
   \<and> escape_message [0xff] = [0xfc, 0xff]"
proof -
  have "escape_byte = (\<lambda>c. if c \<ge> 0xfc then [0xfc, c] else [c])"
    by (rule ext) (simp add: escape_byte_def)
  then have "escape_message msg = concat (map (\<lambda>c. if c \<ge> 0xfc then [0xfc, c] else [c]) msg)"
    using escape_message_concat [of msg] by simp
  then show ?thesis by (simp add: escape_message_def)
qed

text \<open>
  The claim as it was stated fails at the one-byte input \<open>0xFD\<close>: the code puts the escape
  byte before it, the routine of the specification passes it through.
\<close>

theorem escape_message_fd_counterexample:
  "escape_message [0xfd] = [0xfc, 0xfd] \<and> escape_spec [0xfd] = [0xfd]
   \<and> escape_message [0xfd] \<noteq> escape_spec [0xfd]"
  by (simp add: escape_message_def escape_spec_def)

text \<open>Escaping only \<open>0xFC\<close>, as the specification words it, would leave a bare delimiter.\<close>

lemma escape_spec_not_well_escaped: "\<not> well_escaped (escape_spec [0xfd])"
  by (simp add: escape_spec_def)

text \<open>
  C3. The framed message is \<open>0xFD\<close>, then the escaped payload, then \<open>0xFE\<close>; it starts with
  \<open>0xFD\<close> and ends with \<open>0xFE\<close>. Inside the escaped payload every \<open>0xFD\<close> and \<open>0xFE\<close> has
  the escape byte \<open>0xFC\<close> immediately before it, and the escaped payload is well escaped:
  read from the left, no \<open>0xFC\<close>, \<open>0xFD\<close> or \<open>0xFE\<close> stands in it as data without an
  escape byte before it.
\<close>

theorem frame_delimited_and_escaped:
  "frame payload = [0xfd] @ escape_message payload @ [0xfe]
   \<and> hd (frame payload) = 0xfd
   \<and> last (frame payload) = 0xfe
   \<and> (\<forall>i < length (escape_message payload).
         escape_message payload ! i \<in> {0xfd, 0xfe} \<longrightarrow>
         0 < i \<and> escape_message payload ! (i - 1) = 0xfc)
   \<and> well_escaped (escape_message payload)"
proof -
  have "0 < i \<and> escape_message payload ! (i - 1) = 0xfc"
    if "i < length (escape_message payload)" "escape_message payload ! i \<in> {0xfd, 0xfe}" for i
  proof -
    from that(2) have "escape_message payload ! i \<ge> 0xfd" by auto
    with that(1) show ?thesis by (rule delimiter_preceded)
  qed
  then show ?thesis
    by (simp add: frame_def well_escaped_escape)
qed

theorem frame_delimited_and_escaped_witness:
  "frame [0x43, 0xfd, 0xfc] = [0xfd, 0x43, 0xfc, 0xfd, 0xfc, 0xfc, 0xfe]
   \<and> escape_message [0x43, 0xfd, 0xfc] ! 2 = 0xfd
   \<and> escape_message [0x43, 0xfd, 0xfc] ! (2 - 1) = 0xfc
   \<and> well_escaped (escape_message [0x43, 0xfd, 0xfc])"
proof -
  have e: "escape_message [0x43, 0xfd, 0xfc] = [0x43, 0xfc, 0xfd, 0xfc, 0xfc]"
    by (simp add: escape_message_def)
  from frame_delimited_and_escaped [of "[0x43, 0xfd, 0xfc]"]
  have f: "frame [0x43, 0xfd, 0xfc] = [0xfd] @ escape_message [0x43, 0xfd, 0xfc] @ [0xfe]"
    and p: "\<forall>i < length (escape_message [0x43, 0xfd, 0xfc]).
         escape_message [0x43, 0xfd, 0xfc] ! i \<in> {0xfd, 0xfe} \<longrightarrow>
         0 < i \<and> escape_message [0x43, 0xfd, 0xfc] ! (i - 1) = 0xfc"
    and w: "well_escaped (escape_message [0x43, 0xfd, 0xfc])"
    by blast+
  have "2 < length (escape_message [0x43, 0xfd, 0xfc])" by (simp add: e)
  moreover have at2: "escape_message [0x43, 0xfd, 0xfc] ! 2 = 0xfd" by (simp add: e)
  ultimately have "escape_message [0x43, 0xfd, 0xfc] ! (2 - 1) = 0xfc" using p by blast
  with f w at2 show ?thesis by (simp add: e)
qed

subsection \<open>The encoders\<close>

lemma length_big_endian: "length (big_endian n v) = n"
  by (induction n arbitrary: v) simp_all

lemma to_bytes_1:
  "0 \<le> v \<Longrightarrow> v \<le> 255 \<Longrightarrow> to_bytes v (Suc 0) False = Inr [word_of_int v]"
  by (simp add: to_bytes_def)

lemma to_bytes_2:
  "0 \<le> v \<Longrightarrow> v \<le> 65535 \<Longrightarrow>
   to_bytes v 2 False = Inr [word_of_int (v div 256), word_of_int v]"
  by (simp add: to_bytes_def eval_nat_numeral)

lemma to_bytes_4_signed:
  "- 2147483648 \<le> v \<Longrightarrow> v \<le> 2147483647 \<Longrightarrow> to_bytes v 4 True = Inr (big_endian 4 v)"
  by (simp add: to_bytes_def)

lemma set_module_intensity_ok:
  "0 \<le> m \<Longrightarrow> m \<le> 15 \<Longrightarrow> 0 \<le> i \<Longrightarrow> i \<le> 255 \<Longrightarrow>
   set_module_intensity m i = Inr [0x46, word_of_int m, word_of_int i]"
  by (simp add: set_module_intensity_def range_validate_int_def to_bytes_1 MID_defs)

lemma set_module_intensity_raises:
  "0 \<le> m \<Longrightarrow> m \<le> 63 \<Longrightarrow> 15 < m \<Longrightarrow>
   set_module_intensity m i = Inl (ValueError ''intensity'' m 0 15)"
  by (simp add: set_module_intensity_def range_validate_int_def)

lemma set_module_intensity_opcode:
  "set_module_intensity m i = Inr msg \<Longrightarrow> hd msg = 0x46"
  by (auto simp add: set_module_intensity_def range_validate_int_def to_bytes_def MID_defs
      and_then_def split: if_splits sum.splits)

lemma set_module_speed_divider_ok:
  "0 \<le> m \<Longrightarrow> m \<le> 63 \<Longrightarrow> 0 \<le> d \<Longrightarrow> d \<le> 65535 \<Longrightarrow>
   set_module_speed_divider m d =
     Inr [0x46, word_of_int m, word_of_int (d div 256), word_of_int d]"
  by (simp add: set_module_speed_divider_def range_validate_int_def to_bytes_1 to_bytes_2
      MID_defs)

lemma set_sub_module_target_message_ok:
  "0 \<le> m \<Longrightarrow> m \<le> 63 \<Longrightarrow> 0 \<le> s \<Longrightarrow> s \<le> 7 \<Longrightarrow> - 9999999 \<le> t \<Longrightarrow> t \<le> 99999999 \<Longrightarrow>
   set_sub_module_target_message m s t =
     Inr ([0x43, word_of_int m, word_of_int s] @ big_endian 4 t)"
  by (simp add: set_sub_module_target_message_def range_validate_int_def to_bytes_1
      to_bytes_4_signed MID_defs)

lemma set_sub_module_immediate_target_message_ok:
  "0 \<le> m \<Longrightarrow> m \<le> 63 \<Longrightarrow> 0 \<le> s \<Longrightarrow> s \<le> 255 \<Longrightarrow> - 9999999 \<le> t \<Longrightarrow> t \<le> 99999999 \<Longrightarrow>
   set_sub_module_immediate_target_message m s t =
     Inr ([0x45, word_of_int m, word_of_int s] @ big_endian 4 t)"
  by (simp add: set_sub_module_immediate_target_message_def range_validate_int_def to_bytes_1
      to_bytes_4_signed MID_defs)

text \<open>
  C10. For a module index in 0..63 and an intensity in 0..255, \<open>set_module_intensity\<close>
  raises exactly when the module index is above 15, and then it is the range error of the
  check named "intensity", reporting the module index and the bounds 0 and 15; for a
  module index in 0..15 it returns the three bytes \<open>0x46\<close>, module index, intensity,
  whatever the intensity in 0..255.
\<close>

theorem set_module_intensity_checks_module_index:
  assumes "0 \<le> m" and "m \<le> 63" and "0 \<le> i" and "i \<le> 255"
  shows "((\<exists>e. set_module_intensity m i = Inl e) \<longleftrightarrow> 15 < m)
     \<and> (15 < m \<longrightarrow> set_module_intensity m i = Inl (ValueError ''intensity'' m 0 15))
     \<and> (m \<le> 15 \<longrightarrow> set_module_intensity m i = Inr [0x46, word_of_int m, word_of_int i])"
proof (cases "15 < m")
  case True
  with assms show ?thesis by (simp add: set_module_intensity_raises)
next
  case False
  then have "m \<le> 15" by simp
  with assms have "set_module_intensity m i = Inr [0x46, word_of_int m, word_of_int i]"
    by (simp add: set_module_intensity_ok)
  with False show ?thesis by simp
qed

theorem set_module_intensity_checks_module_index_witness:
  "set_module_intensity 16 3 = Inl (ValueError ''intensity'' 16 0 15)
   \<and> set_module_intensity 15 200 = Inr [0x46, 0x0f, 0xc8]"
  using set_module_intensity_checks_module_index [of 16 3]
    set_module_intensity_checks_module_index [of 15 200]
  by simp

text \<open>
  C8. For a module index in 0..63 and a divider in 0..65000, \<open>set_module_speed_divider\<close>
  returns a message, and its first byte is \<open>0x46\<close>, the first byte of every message of
  \<open>set_module_intensity\<close>, although \<open>MID_SET_MODULE_SPEED_DIVIDER\<close> is declared as \<open>0x47\<close>.
\<close>

theorem speed_divider_message_has_intensity_opcode:
  assumes "0 \<le> m" and "m \<le> 63" and "0 \<le> d" and "d \<le> 65000"
  shows "set_module_speed_divider m d =
           Inr [0x46, word_of_int m, word_of_int (d div 256), word_of_int d]
     \<and> (\<forall>msg. set_module_speed_divider m d = Inr msg \<longrightarrow> hd msg = 0x46)
     \<and> (\<forall>m' i' msg'. set_module_intensity m' i' = Inr msg' \<longrightarrow> hd msg' = 0x46)
     \<and> MID_SET_MODULE_INTENSITY = [0x46]
     \<and> MID_SET_MODULE_SPEED_DIVIDER = [0x47]"
proof -
  from assms have
    "set_module_speed_divider m d =
       Inr [0x46, word_of_int m, word_of_int (d div 256), word_of_int d]"
    by (simp add: set_module_speed_divider_ok)
  then show ?thesis
    by (simp add: set_module_intensity_opcode MID_defs)
qed

theorem speed_divider_message_has_intensity_opcode_witness:
  "set_module_speed_divider 5 1000 = Inr [0x46, 0x05, 0x03, 0xe8]
   \<and> set_module_intensity 5 7 = Inr [0x46, 0x05, 0x07]"
proof -
  have "set_module_intensity 5 7 = Inr [0x46, 0x05, 0x07]"
    by (simp add: set_module_intensity_ok)
  then show ?thesis
    using speed_divider_message_has_intensity_opcode [of 5 1000] by simp
qed

text \<open>
  C4. The claim is that every integer field is validated before encoding. The code does
  not do so: an intensity of 16 passes \<open>set_module_intensity\<close>, a divider of 65001 passes
  \<open>set_module_speed_divider\<close>, and a sub-module id of 8 passes
  \<open>set_sub_module_immediate_target_message\<close>; each returns bytes. The sibling encoders
  \<open>set_all_module_intensity\<close> and \<open>set_sub_module_target_message\<close> reject the same values.
\<close>

theorem encoders_accept_unvalidated_fields:
  "set_module_intensity 0 16 = Inr [0x46, 0x00, 0x10]
   \<and> set_module_speed_divider 0 65001 = Inr [0x46, 0x00, 0xfd, 0xe9]
   \<and> set_sub_module_immediate_target_message 0 8 0 =
       Inr [0x45, 0x00, 0x08, 0x00, 0x00, 0x00, 0x00]
   \<and> set_all_module_intensity 16 = Inl (ValueError ''intensity'' 16 0 15)
   \<and> set_sub_module_target_message 0 8 0 = Inl (ValueError ''sub_module'' 8 0 7)"
  by code_simp

subsection \<open>End to end\<close>

text \<open>
  C1. One module of class \<open>MaxyModule_8x7seg\<close> is registered under the name "Right1"; it
  gets index 0 and one sub-module with target cache 0. With the port open, assigning 42
  to its target returns without error and hands exactly one byte sequence to the port,
  after whatever was written before: \<open>FD 43 00 00 00 00 00 2A FE\<close>, nine bytes, the target
  as four big-endian bytes. The eight-byte sequence \<open>FD 43 00 00 00 00 2A FE\<close> is not what
  is written.
\<close>

theorem end_to_end_set_target_42:
  "(let c0 = define_modules new_controller
               [Some \<lparr>def_name = Some ''Right1'', module_type = MaxyModule_8x7seg,
                      sub_module_names = None\<rparr>];
        c1 = c0\<lparr>serial_conn := Some \<lparr>is_open = True, written = w\<rparr>\<rparr>;
        r = set_target_by_name c1 ''Right1'' 42
    in index c0 = [\<lparr>cls = MaxyModule_8x7seg, module_index = 0, cached_intensity = 0,
                     sub_modules = [\<lparr>sub_module_id = 0, cached_target = 0\<rparr>]\<rparr>]
       \<and> name c0 ''Right1'' = Some (ModuleRef 0)
       \<and> fst r = None
       \<and> sink (snd r) = w @ [[0xfd, 0x43, 0x00, 0x00, 0x00, 0x00, 0x00, 0x2a, 0xfe]]
       \<and> sink (snd r) \<noteq> w @ [[0xfd, 0x43, 0x00, 0x00, 0x00, 0x00, 0x2a, 0xfe]]
       \<and> big_endian 4 42 = [0x00, 0x00, 0x00, 0x2a]
       \<and> target_of (snd r) 0 0 = 42)"
proof -
  have m: "set_sub_module_target_message 0 0 42 = Inr [0x43, 0, 0, 0, 0, 0, 0x2a]"
    by code_simp
  have f: "frame [0x43, 0, 0, 0, 0, 0, 0x2a] =
             [0xfd, 0x43, 0x00, 0x00, 0x00, 0x00, 0x00, 0x2a, 0xfe]"
    by code_simp
  have b: "big_endian 4 42 = [0x00, 0x00, 0x00, 0x2a]"
    by code_simp
  show ?thesis
    by (simp add: Let_def define_modules_def new_controller_def new_module_def
        new_sub_module_def truthy_def send_encoded_def send_message_def
        set_target_by_name_def MaxyModule_set_target_def MaxySubModule_set_target_def
        clamp_def store_target_def m f b sink_def target_of_def)
qed

subsection \<open>Clamping and the class ranges\<close>

lemma clamp_bounds: "lo \<le> hi \<Longrightarrow> lo \<le> clamp v lo hi \<and> clamp v lo hi \<le> hi"
  by (simp add: clamp_def)

lemma clamp_cases:
  "lo \<le> hi \<Longrightarrow> clamp v lo hi = (if v < lo then lo else if hi < v then hi else v)"
  by (simp add: clamp_def)

lemma TARGET_MIN_le_MAX: "TARGET_MIN k \<le> TARGET_MAX k"
  by (cases k) simp_all

lemma TARGET_range_encodable: "- 9999999 \<le> TARGET_MIN k \<and> TARGET_MAX k \<le> 99999999"
  by (cases k) simp_all

lemma TARGET_range_has_0: "TARGET_MIN k \<le> 0 \<and> 0 \<le> TARGET_MAX k"
  by (cases k) simp_all

lemma index_send_message [simp]: "index (snd (send_message c msg)) = index c"
  by (simp add: send_message_def split: option.splits)

lemma index_send_encoded [simp]: "index (snd (send_encoded c r)) = index c"
  by (simp add: send_encoded_def split: sum.splits)

lemma name_send_encoded [simp]: "name (snd (send_encoded c r)) = name c"
  by (simp add: send_encoded_def send_message_def split: sum.splits option.splits)

lemma index_configure_loop: "index (snd (configure_loop c ms)) = index c"
proof (induction ms arbitrary: c)
  case Nil
  show ?case by simp
next
  case (Cons m ms)
  obtain e c' where r: "send_encoded c (set_module_type (module_index m) (MODULE_TYPE_ID (cls m))) = (e, c')"
    by (cases "send_encoded c (set_module_type (module_index m) (MODULE_TYPE_ID (cls m)))")
  then have i: "index c' = index c"
    using index_send_encoded [of c "set_module_type (module_index m) (MODULE_TYPE_ID (cls m))"] by simp
  show ?case
  proof (cases e)
    case None
    with r i Cons.IH [of c'] show ?thesis by simp
  next
    case (Some x)
    with r i show ?thesis by simp
  qed
qed

lemma index_store_target:
  "index (store_target c mi si t) =
     (index c)[mi := (index c ! mi)\<lparr>sub_modules := (sub_modules (index c ! mi))
        [si := (sub_modules (index c ! mi) ! si)\<lparr>cached_target := t\<rparr>]\<rparr>]"
  by (simp add: store_target_def)

lemma targets_in_range_cong: "index c' = index c \<Longrightarrow> targets_in_range c' = targets_in_range c"
  by (simp add: targets_in_range_def)

lemma targets_in_range_store:
  assumes inv: "targets_in_range c"
    and t: "TARGET_MIN (cls (index c ! mi)) \<le> t" "t \<le> TARGET_MAX (cls (index c ! mi))"
  shows "targets_in_range (store_target c mi si t)"
  unfolding targets_in_range_def
proof (intro ballI)
  fix m s
  assume m: "m \<in> set (index (store_target c mi si t))" and s: "s \<in> set (sub_modules m)"
  let ?old = "index c ! mi"
  let ?new = "?old\<lparr>sub_modules := (sub_modules ?old)[si := (sub_modules ?old ! si)\<lparr>cached_target := t\<rparr>]\<rparr>"
  from m have "m \<in> set ((index c)[mi := ?new])" by (simp add: index_store_target)
  then have "m = ?new \<or> m \<in> set (index c)"
    using set_update_subset_insert [of "index c" mi ?new] by auto
  then show "TARGET_MIN (cls m) \<le> cached_target s \<and> cached_target s \<le> TARGET_MAX (cls m)"
  proof
    assume mn: "m = ?new"
    show ?thesis
    proof (cases "mi < length (index c)")
      case False
      with m have "m \<in> set (index c)" by (simp add: index_store_target list_update_beyond)
      with inv s show ?thesis by (simp add: targets_in_range_def)
    next
      case True
      then have old: "?old \<in> set (index c)" by simp
      from s mn have "s \<in> set ((sub_modules ?old)[si := (sub_modules ?old ! si)\<lparr>cached_target := t\<rparr>])"
        by simp
      then have "s = (sub_modules ?old ! si)\<lparr>cached_target := t\<rparr> \<or> s \<in> set (sub_modules ?old)"
        using set_update_subset_insert [of "sub_modules ?old" si] by auto
      then show ?thesis
      proof
        assume "s = (sub_modules ?old ! si)\<lparr>cached_target := t\<rparr>"
        with t mn show ?thesis by simp
      next
        assume "s \<in> set (sub_modules ?old)"
        with inv old mn show ?thesis by (simp add: targets_in_range_def)
      qed
    qed
  next
    assume "m \<in> set (index c)"
    with inv s show ?thesis by (simp add: targets_in_range_def)
  qed
qed

subsection \<open>Registration and the range invariant\<close>

lemma new_module_targets:
  "s \<in> set (sub_modules (new_module k i)) \<Longrightarrow> cached_target s = 0"
  by (auto simp add: new_module_def new_sub_module_def)

lemma cls_new_module [simp]: "cls (new_module k i) = k"
  by (simp add: new_module_def)

lemma index_define_loop:
  "m \<in> set (index (define_loop c i defs)) \<Longrightarrow>
   m \<in> set (index c) \<or> (\<exists>k j. m = new_module k j)"
proof (induction c i defs rule: define_loop.induct)
  case (1 c i)
  then show ?case by simp
next
  case (2 c i defs)
  then show ?case by simp
next
  case (3 c i d defs)
  let ?pos = "length (index c)"
  let ?c1 = "c\<lparr>index := index c @ [new_module (module_type d) (int i)]\<rparr>"
  let ?c2 = "(if truthy (def_name d)
                then ?c1\<lparr>name := (name ?c1)(the (def_name d) \<mapsto> ModuleRef ?pos)\<rparr> else ?c1)"
  let ?c3 = "(case sub_module_names d of
                  None \<Rightarrow> ?c2
                | Some ns \<Rightarrow>
                    if SUB_MODULE_COUNT (module_type d) > 1 \<and> ns \<noteq> []
                    then ?c2\<lparr>name := name_sub_modules (name ?c2) ?pos
                                       (zip ns [0..<SUB_MODULE_COUNT (module_type d)])\<rparr>
                    else ?c2)"
  have i3: "index ?c3 = index c @ [new_module (module_type d) (int i)]"
    by (simp split: option.splits)
  from "3.prems" have "m \<in> set (index (define_loop ?c3 (Suc i) defs))"
    by (simp add: Let_def)
  with "3.IH" [of ?pos ?c1 ?c2 ?c3] have "m \<in> set (index ?c3) \<or> (\<exists>k j. m = new_module k j)"
    by simp
  with i3 show ?case by auto
qed

lemma targets_in_range_define_modules: "targets_in_range (define_modules c defs)"
  unfolding targets_in_range_def
proof (intro ballI)
  fix m s
  assume m: "m \<in> set (index (define_modules c defs))" and s: "s \<in> set (sub_modules m)"
  from m have "m \<in> set (index (c\<lparr>index := [], name := Map.empty\<rparr>)) \<or> (\<exists>k j. m = new_module k j)"
    unfolding define_modules_def by (rule index_define_loop)
  then obtain k j where "m = new_module k j" by auto
  with s have "cached_target s = 0" "cls m = k" by (simp_all add: new_module_targets)
  then show "TARGET_MIN (cls m) \<le> cached_target s \<and> cached_target s \<le> TARGET_MAX (cls m)"
    using TARGET_range_has_0 [of k] by simp
qed

lemma index_sub_set_target:
  "index (snd (MaxySubModule_set_target c mi si v)) = index c \<or>
   index (snd (MaxySubModule_set_target c mi si v)) =
     index (store_target c mi si
       (clamp v (TARGET_MIN (cls (index c ! mi))) (TARGET_MAX (cls (index c ! mi)))))"
  by (simp add: MaxySubModule_set_target_def Let_def)

lemma index_sub_set_immediate_target:
  "index (snd (MaxySubModule_set_immediate_target c mi si v)) = index c \<or>
   index (snd (MaxySubModule_set_immediate_target c mi si v)) =
     index (store_target c mi si
       (clamp v (TARGET_MIN (cls (index c ! mi))) (TARGET_MAX (cls (index c ! mi)))))"
  by (simp add: MaxySubModule_set_immediate_target_def Let_def)

lemma targets_in_range_store_clamp:
  "targets_in_range c \<Longrightarrow>
   targets_in_range (store_target c mi si
       (clamp v (TARGET_MIN (cls (index c ! mi))) (TARGET_MAX (cls (index c ! mi)))))"
  by (rule targets_in_range_store) (simp_all add: clamp_bounds TARGET_MIN_le_MAX)

lemma targets_in_range_sub_set_target:
  assumes "targets_in_range c"
  shows "targets_in_range (snd (MaxySubModule_set_target c mi si v))"
  using index_sub_set_target [of c mi si v] targets_in_range_store_clamp [OF assms, of mi si v] assms
  by (auto simp add: targets_in_range_def)

lemma targets_in_range_sub_set_immediate_target:
  assumes "targets_in_range c"
  shows "targets_in_range (snd (MaxySubModule_set_immediate_target c mi si v))"
  using index_sub_set_immediate_target [of c mi si v]
    targets_in_range_store_clamp [OF assms, of mi si v] assms
  by (auto simp add: targets_in_range_def)

lemma targets_in_range_module_set_target:
  "targets_in_range c \<Longrightarrow> targets_in_range (snd (MaxyModule_set_target c mi v))"
  by (simp add: MaxyModule_set_target_def targets_in_range_sub_set_target)

lemma targets_in_range_module_set_immediate_target:
  "targets_in_range c \<Longrightarrow> targets_in_range (snd (MaxyModule_set_immediate_target c mi v))"
  by (simp add: MaxyModule_set_immediate_target_def targets_in_range_sub_set_immediate_target)

lemma targets_in_range_set_target_by_name:
  "targets_in_range c \<Longrightarrow> targets_in_range (snd (set_target_by_name c n v))"
  by (simp add: set_target_by_name_def targets_in_range_sub_set_target
      targets_in_range_module_set_target split: option.splits unit_ref.splits)

lemma targets_in_range_set_immediate_target_by_name:
  "targets_in_range c \<Longrightarrow> targets_in_range (snd (set_immediate_target_by_name c n v))"
  by (simp add: set_immediate_target_by_name_def targets_in_range_sub_set_immediate_target
      targets_in_range_module_set_immediate_target split: option.splits unit_ref.splits)

lemma targets_in_range_set_intensity:
  assumes "targets_in_range c"
  shows "targets_in_range (snd (MaxyModule_set_intensity c mi v))"
proof (cases "mi < length (index c) \<and> clamp v 0 15 \<noteq> cached_intensity (index c ! mi)")
  case False
  with assms show ?thesis by (auto simp add: MaxyModule_set_intensity_def Let_def)
next
  case True
  let ?new = "(index c ! mi)\<lparr>cached_intensity := clamp v 0 15\<rparr>"
  from True have i: "index (snd (MaxyModule_set_intensity c mi v)) = (index c)[mi := ?new]"
    by (simp add: MaxyModule_set_intensity_def Let_def)
  show ?thesis
    unfolding targets_in_range_def
  proof (intro ballI)
    fix m s
    assume "m \<in> set (index (snd (MaxyModule_set_intensity c mi v)))" and s: "s \<in> set (sub_modules m)"
    with i have "m \<in> set ((index c)[mi := ?new])" by simp
    then have "m = ?new \<or> m \<in> set (index c)"
      using set_update_subset_insert [of "index c" mi ?new] by auto
    then show "TARGET_MIN (cls m) \<le> cached_target s \<and> cached_target s \<le> TARGET_MAX (cls m)"
    proof
      assume mn: "m = ?new"
      from True have "index c ! mi \<in> set (index c)" by simp
      with assms s mn show ?thesis by (simp add: targets_in_range_def)
    next
      assume "m \<in> set (index c)"
      with assms s show ?thesis by (simp add: targets_in_range_def)
    qed
  qed
qed

lemma targets_in_range_step: "targets_in_range c \<Longrightarrow> targets_in_range (step c a)"
proof (cases a)
  case (Define_modules defs)
  then show ?thesis by (simp add: targets_in_range_define_modules)
next
  case (Connect p)
  assume "targets_in_range c"
  then have "targets_in_range (c\<lparr>serial_conn := Some p\<rparr>)" by (simp add: targets_in_range_def)
  then show ?thesis using Connect
    by (simp add: connect_def configure_module_types_def targets_in_range_def index_configure_loop)
next
  case Configure_module_types
  assume "targets_in_range c"
  then show ?thesis using Configure_module_types
    by (simp add: configure_module_types_def targets_in_range_def index_configure_loop)
next
  case (Set_global_intensity v)
  assume "targets_in_range c"
  then show ?thesis using Set_global_intensity
    by (simp add: set_global_intensity_def targets_in_range_def)
qed (simp_all add: targets_in_range_set_intensity targets_in_range_module_set_target
      targets_in_range_module_set_immediate_target targets_in_range_sub_set_target
      targets_in_range_sub_set_immediate_target targets_in_range_set_target_by_name
      targets_in_range_set_immediate_target_by_name)

lemma targets_in_range_foldl:
  "targets_in_range c \<Longrightarrow> targets_in_range (foldl step c acts)"
  by (induction acts arbitrary: c) (simp_all add: targets_in_range_step)

lemma targets_in_range_run: "targets_in_range (run acts)"
  unfolding run_def
  by (rule targets_in_range_foldl) (simp add: targets_in_range_def new_controller_def)

subsection \<open>What the sub-module setters store and write\<close>

lemma serial_conn_store_target [simp]: "serial_conn (store_target c mi si t) = serial_conn c"
  by (simp add: store_target_def)

lemma sink_store_target [simp]: "sink (store_target c mi si t) = sink c"
  by (simp add: sink_def)

lemma target_of_store_target:
  "mi < length (index c) \<Longrightarrow> si < length (sub_modules (index c ! mi)) \<Longrightarrow>
   target_of (store_target c mi si t) mi si = t"
  by (simp add: store_target_def target_of_def)

lemma target_of_cong: "index c' = index c \<Longrightarrow> target_of c' mi si = target_of c mi si"
  by (simp add: target_of_def)

lemma sink_send_message:
  "sink (snd (send_message c msg)) = sink c \<or> sink (snd (send_message c msg)) = sink c @ [frame msg]"
  by (simp add: send_message_def sink_def split: option.splits)

lemma send_message_open:
  "serial_conn c = Some p \<Longrightarrow> is_open p \<Longrightarrow>
   send_message c msg = (None, c\<lparr>serial_conn := Some (p\<lparr>written := written p @ [frame msg]\<rparr>)\<rparr>)"
  by (simp add: send_message_def)

lemma set_sub_module_target_message_shape:
  "set_sub_module_target_message m s t = Inr msg \<Longrightarrow>
   msg = [0x43, word_of_int m, word_of_int s] @ big_endian 4 t"
  by (auto simp add: set_sub_module_target_message_def range_validate_int_def to_bytes_def
      MID_defs and_then_def split: if_splits sum.splits)

lemma set_sub_module_immediate_target_message_shape:
  "set_sub_module_immediate_target_message m s t = Inr msg \<Longrightarrow>
   msg = [0x45, word_of_int m, word_of_int s] @ big_endian 4 t"
  by (auto simp add: set_sub_module_immediate_target_message_def range_validate_int_def
      to_bytes_def MID_defs and_then_def split: if_splits sum.splits)

lemma set_sub_module_target_message_no_target_error:
  "- 9999999 \<le> t \<Longrightarrow> t \<le> 99999999 \<Longrightarrow>
   set_sub_module_target_message m s t \<noteq> Inl (ValueError ''target'' a lo hi)"
  by (auto simp add: set_sub_module_target_message_def range_validate_int_def to_bytes_def
      and_then_def split: if_splits sum.splits)

lemma set_sub_module_immediate_target_message_no_target_error:
  "- 9999999 \<le> t \<Longrightarrow> t \<le> 99999999 \<Longrightarrow>
   set_sub_module_immediate_target_message m s t \<noteq> Inl (ValueError ''target'' a lo hi)"
  by (auto simp add: set_sub_module_immediate_target_message_def range_validate_int_def to_bytes_def
      and_then_def split: if_splits sum.splits)

lemma sink_send_encoded:
  "sink (snd (send_encoded c r)) = sink c \<or>
   (\<exists>msg. r = Inr msg \<and> sink (snd (send_encoded c r)) = sink c @ [frame msg])"
  using sink_send_message by (cases r) (simp_all add: send_encoded_def)

lemma fst_send_encoded_no_target_error:
  "r \<noteq> Inl (ValueError ''target'' a lo hi) \<Longrightarrow>
   fst (send_encoded c r) \<noteq> Some (ValueError ''target'' a lo hi)"
  by (cases r) (auto simp add: send_encoded_def send_message_def split: option.splits)

lemma clamp_target_encodable:
  "- 9999999 \<le> clamp v (TARGET_MIN k) (TARGET_MAX k) \<and> clamp v (TARGET_MIN k) (TARGET_MAX k) \<le> 99999999"
  using clamp_bounds [OF TARGET_MIN_le_MAX, of k v] TARGET_range_encodable [of k] by linarith

lemma sub_set_target_same:
  "mi < length (index c) \<Longrightarrow> si < length (sub_modules (index c ! mi)) \<Longrightarrow>
   clamp v (TARGET_MIN (cls (index c ! mi))) (TARGET_MAX (cls (index c ! mi))) = target_of c mi si \<Longrightarrow>
   MaxySubModule_set_target c mi si v = (None, c)"
  by (simp add: MaxySubModule_set_target_def Let_def target_of_def)

lemma sub_set_target_changed:
  "mi < length (index c) \<Longrightarrow> si < length (sub_modules (index c ! mi)) \<Longrightarrow>
   clamp v (TARGET_MIN (cls (index c ! mi))) (TARGET_MAX (cls (index c ! mi))) \<noteq> target_of c mi si \<Longrightarrow>
   MaxySubModule_set_target c mi si v =
     send_encoded
       (store_target c mi si (clamp v (TARGET_MIN (cls (index c ! mi))) (TARGET_MAX (cls (index c ! mi)))))
       (set_sub_module_target_message (module_index (index c ! mi))
          (sub_module_id (sub_modules (index c ! mi) ! si))
          (clamp v (TARGET_MIN (cls (index c ! mi))) (TARGET_MAX (cls (index c ! mi)))))"
  by (simp add: MaxySubModule_set_target_def Let_def target_of_def)

lemma sub_set_immediate_target_same:
  "mi < length (index c) \<Longrightarrow> si < length (sub_modules (index c ! mi)) \<Longrightarrow>
   clamp v (TARGET_MIN (cls (index c ! mi))) (TARGET_MAX (cls (index c ! mi))) = target_of c mi si \<Longrightarrow>
   MaxySubModule_set_immediate_target c mi si v = (None, c)"
  by (simp add: MaxySubModule_set_immediate_target_def Let_def target_of_def)

lemma sub_set_immediate_target_changed:
  "mi < length (index c) \<Longrightarrow> si < length (sub_modules (index c ! mi)) \<Longrightarrow>
   clamp v (TARGET_MIN (cls (index c ! mi))) (TARGET_MAX (cls (index c ! mi))) \<noteq> target_of c mi si \<Longrightarrow>
   MaxySubModule_set_immediate_target c mi si v =
     send_encoded
       (store_target c mi si (clamp v (TARGET_MIN (cls (index c ! mi))) (TARGET_MAX (cls (index c ! mi)))))
       (set_sub_module_immediate_target_message (module_index (index c ! mi))
          (sub_module_id (sub_modules (index c ! mi) ! si))
          (clamp v (TARGET_MIN (cls (index c ! mi))) (TARGET_MAX (cls (index c ! mi)))))"
  by (simp add: MaxySubModule_set_immediate_target_def Let_def target_of_def)

lemma target_of_sub_set_target:
  assumes "mi < length (index c)" and "si < length (sub_modules (index c ! mi))"
  shows "target_of (snd (MaxySubModule_set_target c mi si v)) mi si =
         clamp v (TARGET_MIN (cls (index c ! mi))) (TARGET_MAX (cls (index c ! mi)))"
proof (cases "clamp v (TARGET_MIN (cls (index c ! mi))) (TARGET_MAX (cls (index c ! mi))) = target_of c mi si")
  case True
  with assms show ?thesis by (simp add: sub_set_target_same)
next
  case False
  with assms show ?thesis
    by (simp add: sub_set_target_changed target_of_cong [OF index_send_encoded] target_of_store_target)
qed

lemma target_of_sub_set_immediate_target:
  assumes "mi < length (index c)" and "si < length (sub_modules (index c ! mi))"
  shows "target_of (snd (MaxySubModule_set_immediate_target c mi si v)) mi si =
         clamp v (TARGET_MIN (cls (index c ! mi))) (TARGET_MAX (cls (index c ! mi)))"
proof (cases "clamp v (TARGET_MIN (cls (index c ! mi))) (TARGET_MAX (cls (index c ! mi))) = target_of c mi si")
  case True
  with assms show ?thesis by (simp add: sub_set_immediate_target_same)
next
  case False
  with assms show ?thesis
    by (simp add: sub_set_immediate_target_changed target_of_cong [OF index_send_encoded]
        target_of_store_target)
qed

lemma sink_sub_set_target:
  assumes "mi < length (index c)" and "si < length (sub_modules (index c ! mi))"
  shows "sink (snd (MaxySubModule_set_target c mi si v)) = sink c \<or>
         sink (snd (MaxySubModule_set_target c mi si v)) =
           sink c @ [frame ([0x43, word_of_int (module_index (index c ! mi)),
                             word_of_int (sub_module_id (sub_modules (index c ! mi) ! si))] @
                            big_endian 4 (clamp v (TARGET_MIN (cls (index c ! mi)))
                                                  (TARGET_MAX (cls (index c ! mi)))))]"
proof (cases "clamp v (TARGET_MIN (cls (index c ! mi))) (TARGET_MAX (cls (index c ! mi))) = target_of c mi si")
  case True
  with assms show ?thesis by (simp add: sub_set_target_same)
next
  case False
  let ?t = "clamp v (TARGET_MIN (cls (index c ! mi))) (TARGET_MAX (cls (index c ! mi)))"
  let ?r = "set_sub_module_target_message (module_index (index c ! mi))
          (sub_module_id (sub_modules (index c ! mi) ! si)) ?t"
  from assms False have e: "MaxySubModule_set_target c mi si v = send_encoded (store_target c mi si ?t) ?r"
    by (rule sub_set_target_changed)
  from sink_send_encoded [of "store_target c mi si ?t" ?r] show ?thesis
  proof
    assume "sink (snd (send_encoded (store_target c mi si ?t) ?r)) = sink (store_target c mi si ?t)"
    with e show ?thesis by simp
  next
    assume "\<exists>msg. ?r = Inr msg \<and>
      sink (snd (send_encoded (store_target c mi si ?t) ?r)) = sink (store_target c mi si ?t) @ [frame msg]"
    then obtain msg where m: "?r = Inr msg"
      and s: "sink (snd (send_encoded (store_target c mi si ?t) ?r)) = sink (store_target c mi si ?t) @ [frame msg]"
      by blast
    from m have "msg = [0x43, word_of_int (module_index (index c ! mi)),
                             word_of_int (sub_module_id (sub_modules (index c ! mi) ! si))] @
                            big_endian 4 ?t"
      by (rule set_sub_module_target_message_shape)
    with s e show ?thesis by simp
  qed
qed

lemma sink_sub_set_immediate_target:
  assumes "mi < length (index c)" and "si < length (sub_modules (index c ! mi))"
  shows "sink (snd (MaxySubModule_set_immediate_target c mi si v)) = sink c \<or>
         sink (snd (MaxySubModule_set_immediate_target c mi si v)) =
           sink c @ [frame ([0x45, word_of_int (module_index (index c ! mi)),
                             word_of_int (sub_module_id (sub_modules (index c ! mi) ! si))] @
                            big_endian 4 (clamp v (TARGET_MIN (cls (index c ! mi)))
                                                  (TARGET_MAX (cls (index c ! mi)))))]"
proof (cases "clamp v (TARGET_MIN (cls (index c ! mi))) (TARGET_MAX (cls (index c ! mi))) = target_of c mi si")
  case True
  with assms show ?thesis by (simp add: sub_set_immediate_target_same)
next
  case False
  let ?t = "clamp v (TARGET_MIN (cls (index c ! mi))) (TARGET_MAX (cls (index c ! mi)))"
  let ?r = "set_sub_module_immediate_target_message (module_index (index c ! mi))
          (sub_module_id (sub_modules (index c ! mi) ! si)) ?t"
  from assms False have e: "MaxySubModule_set_immediate_target c mi si v = send_encoded (store_target c mi si ?t) ?r"
    by (rule sub_set_immediate_target_changed)
  from sink_send_encoded [of "store_target c mi si ?t" ?r] show ?thesis
  proof
    assume "sink (snd (send_encoded (store_target c mi si ?t) ?r)) = sink (store_target c mi si ?t)"
    with e show ?thesis by simp
  next
    assume "\<exists>msg. ?r = Inr msg \<and>
      sink (snd (send_encoded (store_target c mi si ?t) ?r)) = sink (store_target c mi si ?t) @ [frame msg]"
    then obtain msg where m: "?r = Inr msg"
      and s: "sink (snd (send_encoded (store_target c mi si ?t) ?r)) = sink (store_target c mi si ?t) @ [frame msg]"
      by blast
    from m have "msg = [0x45, word_of_int (module_index (index c ! mi)),
                             word_of_int (sub_module_id (sub_modules (index c ! mi) ! si))] @
                            big_endian 4 ?t"
      by (rule set_sub_module_immediate_target_message_shape)
    with s e show ?thesis by simp
  qed
qed

lemma sub_set_target_sends:
  assumes h: "mi < length (index c)" "si < length (sub_modules (index c ! mi))"
    and ne: "clamp v (TARGET_MIN (cls (index c ! mi))) (TARGET_MAX (cls (index c ! mi))) \<noteq> target_of c mi si"
    and p: "serial_conn c = Some p" "is_open p"
    and m: "0 \<le> module_index (index c ! mi)" "module_index (index c ! mi) \<le> 63"
    and s: "0 \<le> sub_module_id (sub_modules (index c ! mi) ! si)"
           "sub_module_id (sub_modules (index c ! mi) ! si) \<le> 7"
  shows "MaxySubModule_set_target c mi si v =
     (None, (store_target c mi si (clamp v (TARGET_MIN (cls (index c ! mi))) (TARGET_MAX (cls (index c ! mi)))))
        \<lparr>serial_conn := Some (p\<lparr>written := written p @
           [frame ([0x43, word_of_int (module_index (index c ! mi)),
                    word_of_int (sub_module_id (sub_modules (index c ! mi) ! si))] @
                   big_endian 4 (clamp v (TARGET_MIN (cls (index c ! mi)))
                                         (TARGET_MAX (cls (index c ! mi)))))]\<rparr>)\<rparr>)"
proof -
  let ?t = "clamp v (TARGET_MIN (cls (index c ! mi))) (TARGET_MAX (cls (index c ! mi)))"
  have enc: "set_sub_module_target_message (module_index (index c ! mi))
          (sub_module_id (sub_modules (index c ! mi) ! si)) ?t =
        Inr ([0x43, word_of_int (module_index (index c ! mi)),
                    word_of_int (sub_module_id (sub_modules (index c ! mi) ! si))] @ big_endian 4 ?t)"
    using m s clamp_target_encodable [of v "cls (index c ! mi)"]
    by (intro set_sub_module_target_message_ok) simp_all
  from p have "serial_conn (store_target c mi si ?t) = Some p" by simp
  then show ?thesis
    using p(2) by (simp add: sub_set_target_changed [OF h ne] enc send_encoded_def send_message_open)
qed

lemma sub_set_immediate_target_sends:
  assumes h: "mi < length (index c)" "si < length (sub_modules (index c ! mi))"
    and ne: "clamp v (TARGET_MIN (cls (index c ! mi))) (TARGET_MAX (cls (index c ! mi))) \<noteq> target_of c mi si"
    and p: "serial_conn c = Some p" "is_open p"
    and m: "0 \<le> module_index (index c ! mi)" "module_index (index c ! mi) \<le> 63"
    and s: "0 \<le> sub_module_id (sub_modules (index c ! mi) ! si)"
           "sub_module_id (sub_modules (index c ! mi) ! si) \<le> 255"
  shows "MaxySubModule_set_immediate_target c mi si v =
     (None, (store_target c mi si (clamp v (TARGET_MIN (cls (index c ! mi))) (TARGET_MAX (cls (index c ! mi)))))
        \<lparr>serial_conn := Some (p\<lparr>written := written p @
           [frame ([0x45, word_of_int (module_index (index c ! mi)),
                    word_of_int (sub_module_id (sub_modules (index c ! mi) ! si))] @
                   big_endian 4 (clamp v (TARGET_MIN (cls (index c ! mi)))
                                         (TARGET_MAX (cls (index c ! mi)))))]\<rparr>)\<rparr>)"
proof -
  let ?t = "clamp v (TARGET_MIN (cls (index c ! mi))) (TARGET_MAX (cls (index c ! mi)))"
  have enc: "set_sub_module_immediate_target_message (module_index (index c ! mi))
          (sub_module_id (sub_modules (index c ! mi) ! si)) ?t =
        Inr ([0x45, word_of_int (module_index (index c ! mi)),
                    word_of_int (sub_module_id (sub_modules (index c ! mi) ! si))] @ big_endian 4 ?t)"
    using m s clamp_target_encodable [of v "cls (index c ! mi)"]
    by (intro set_sub_module_immediate_target_message_ok) simp_all
  from p have "serial_conn (store_target c mi si ?t) = Some p" by simp
  then show ?thesis
    using p(2)
    by (simp add: sub_set_immediate_target_changed [OF h ne] enc send_encoded_def send_message_open)
qed

lemma sink_after_write:
  "serial_conn c = Some p \<Longrightarrow>
   sink (c'\<lparr>serial_conn := Some (p\<lparr>written := written p @ [f]\<rparr>)\<rparr>) = sink c @ [f]"
  by (simp add: sink_def)

lemma fst_sub_set_target_no_target_error:
  assumes "mi < length (index c)" and "si < length (sub_modules (index c ! mi))"
  shows "fst (MaxySubModule_set_target c mi si v) \<noteq> Some (ValueError ''target'' a lo hi)"
proof (cases "clamp v (TARGET_MIN (cls (index c ! mi))) (TARGET_MAX (cls (index c ! mi))) = target_of c mi si")
  case True
  with assms show ?thesis by (simp add: sub_set_target_same)
next
  case False
  show ?thesis
    unfolding sub_set_target_changed [OF assms False]
    using clamp_target_encodable [of v "cls (index c ! mi)"]
    by (intro fst_send_encoded_no_target_error set_sub_module_target_message_no_target_error)
       simp_all
qed

lemma fst_sub_set_immediate_target_no_target_error:
  assumes "mi < length (index c)" and "si < length (sub_modules (index c ! mi))"
  shows "fst (MaxySubModule_set_immediate_target c mi si v) \<noteq> Some (ValueError ''target'' a lo hi)"
proof (cases "clamp v (TARGET_MIN (cls (index c ! mi))) (TARGET_MAX (cls (index c ! mi))) = target_of c mi si")
  case True
  with assms show ?thesis by (simp add: sub_set_immediate_target_same)
next
  case False
  show ?thesis
    unfolding sub_set_immediate_target_changed [OF assms False]
    using clamp_target_encodable [of v "cls (index c ! mi)"]
    by (intro fst_send_encoded_no_target_error
          set_sub_module_immediate_target_message_no_target_error) simp_all
qed

subsection \<open>The setters on the device model\<close>

text \<open>
  C5. For the sub-module at a valid position: when the requested value, clamped to the
  range of the module's class, equals the cached target, \<open>_set_target\<close> returns the
  controller unchanged, so nothing is written and the cache is as before. In every case
  the cache holds the clamped value afterwards. When the clamped value differs from the
  cache, the port is open and the module index and sub-module id are in their ranges
  0..63 and 0..7, it returns without error and exactly one frame is appended to what the
  port was handed: the frame of opcode \<open>0x43\<close>, module index, sub-module id and the
  clamped value in four big-endian bytes. A requested value inside the range is its own
  clamped value.
\<close>

theorem sub_module_target_deduplicated:
  assumes "mi < length (index c)" and "si < length (sub_modules (index c ! mi))"
  shows
   "(let m = index c ! mi; s = sub_modules m ! si;
         t = clamp v (TARGET_MIN (cls m)) (TARGET_MAX (cls m));
         r = MaxySubModule_set_target c mi si v
     in (t = cached_target s \<longrightarrow> r = (None, c))
      \<and> target_of (snd r) mi si = t
      \<and> (t \<noteq> cached_target s \<and> serial_conn c = Some p \<and> is_open p
           \<and> 0 \<le> module_index m \<and> module_index m \<le> 63
           \<and> 0 \<le> sub_module_id s \<and> sub_module_id s \<le> 7 \<longrightarrow>
            fst r = None
            \<and> target_of (snd r) mi si = t
            \<and> sink (snd r) =
                sink c @ [frame (MID_SET_SUB_MODULE_TARGET @
                            [word_of_int (module_index m), word_of_int (sub_module_id s)] @
                            big_endian 4 t)]
            \<and> MID_SET_SUB_MODULE_TARGET = [0x43])
      \<and> (TARGET_MIN (cls m) \<le> v \<and> v \<le> TARGET_MAX (cls m) \<longrightarrow> t = v))"
proof -
  let ?m = "index c ! mi"
  let ?s = "sub_modules ?m ! si"
  let ?t = "clamp v (TARGET_MIN (cls ?m)) (TARGET_MAX (cls ?m))"
  let ?r = "MaxySubModule_set_target c mi si v"
  have same: "?r = (None, c)" if "?t = cached_target ?s"
    using assms that by (simp add: sub_set_target_same target_of_def)
  have changed: "fst ?r = None \<and> target_of (snd ?r) mi si = ?t
            \<and> sink (snd ?r) =
                sink c @ [frame (MID_SET_SUB_MODULE_TARGET @
                            [word_of_int (module_index ?m), word_of_int (sub_module_id ?s)] @
                            big_endian 4 ?t)]
            \<and> MID_SET_SUB_MODULE_TARGET = [0x43]"
    if ne: "?t \<noteq> cached_target ?s" and p: "serial_conn c = Some p" "is_open p"
      and m: "0 \<le> module_index ?m" "module_index ?m \<le> 63"
      and s: "0 \<le> sub_module_id ?s" "sub_module_id ?s \<le> 7"
  proof -
    from ne have ne': "?t \<noteq> target_of c mi si" by (simp add: target_of_def)
    note r = sub_set_target_sends [OF assms ne' p m s]
    from p(1) have "sink c = written p" by (simp add: sink_def)
    with r show ?thesis
      using target_of_sub_set_target [OF assms, of v]
      by (simp add: sink_def MID_defs)
  qed
  have inr: "?t = v" if "TARGET_MIN (cls ?m) \<le> v" "v \<le> TARGET_MAX (cls ?m)"
    using that by (simp add: clamp_def)
  have stored: "target_of (snd ?r) mi si = ?t"
    using assms by (rule target_of_sub_set_target)
  from same changed inr stored show ?thesis unfolding Let_def by blast
qed

lemma main_controller_Right1:
  "index main_controller ! 0 =
     \<lparr>cls = MaxyModule_8x7seg, module_index = 0, cached_intensity = 0,
      sub_modules = [\<lparr>sub_module_id = 0, cached_target = 0\<rparr>]\<rparr>"
  by code_simp

lemma main_controller_tail:
  "index main_controller ! 8 =
     \<lparr>cls = MaxyModule_2x4x7seg, module_index = 8, cached_intensity = 0,
      sub_modules = [\<lparr>sub_module_id = 0, cached_target = 0\<rparr>,
                     \<lparr>sub_module_id = 1, cached_target = 0\<rparr>]\<rparr>"
  by code_simp

lemma main_controller_length: "length (index main_controller) = 9"
  by code_simp

lemma main_controller_port: "serial_conn main_controller = Some open_port"
  by (simp add: main_controller_def)

lemma main_controller_sink: "sink main_controller = []"
  by (simp add: main_controller_def sink_def open_port_def)

text \<open>
  On the controller of the driving script with the port open: the first assignment of 42
  to the sub-module of "Right1" writes one frame; assigning the cached value 0 writes
  nothing.
\<close>

theorem sub_module_target_deduplicated_witness:
  "fst (MaxySubModule_set_target main_controller 0 0 42) = None
   \<and> target_of (snd (MaxySubModule_set_target main_controller 0 0 42)) 0 0 = 42
   \<and> sink (snd (MaxySubModule_set_target main_controller 0 0 42)) =
       [[0xfd, 0x43, 0x00, 0x00, 0x00, 0x00, 0x00, 0x2a, 0xfe]]
   \<and> MaxySubModule_set_target main_controller 0 0 0 = (None, main_controller)"
proof -
  have h1: "0 < length (index main_controller)" by (simp add: main_controller_length)
  have h2: "0 < length (sub_modules (index main_controller ! 0))"
    by (simp add: main_controller_Right1)
  have f: "frame (0x43 # 0 # 0 # big_endian 4 42) =
           [0xfd, 0x43, 0x00, 0x00, 0x00, 0x00, 0x00, 0x2a, 0xfe]"
    by code_simp
  have o: "is_open open_port" by (simp add: open_port_def)
  show ?thesis
    using sub_module_target_deduplicated [OF h1 h2, of 42 open_port]
      sub_module_target_deduplicated [OF h1 h2, of 0 open_port]
    by (simp add: Let_def main_controller_Right1 main_controller_port main_controller_sink
        clamp_def f o MID_defs)
qed

text \<open>
  C9. For a module whose class has \<open>ALLOW_MAIN_MODULE_TARGET_CHANGES = False\<close>, assigning the
  module's target, or its immediate target, raises the \<open>TypeError\<close> of the source for every
  requested value and leaves the controller as it was: nothing is handed to the port and no
  module or sub-module changes. The same holds when the module is reached by its name.
\<close>

theorem main_target_change_forbidden:
  assumes "mi < length (index c)"
    and "\<not> ALLOW_MAIN_MODULE_TARGET_CHANGES (cls (index c ! mi))"
  shows "MaxyModule_set_target c mi v = (Some TypeError, c)
     \<and> MaxyModule_set_immediate_target c mi v = (Some TypeError, c)
     \<and> sink (snd (MaxyModule_set_target c mi v)) = sink c
     \<and> sink (snd (MaxyModule_set_immediate_target c mi v)) = sink c
     \<and> index (snd (MaxyModule_set_target c mi v)) = index c
     \<and> index (snd (MaxyModule_set_immediate_target c mi v)) = index c
     \<and> (name c n = Some (ModuleRef mi) \<longrightarrow>
          set_target_by_name c n v = (Some TypeError, c)
          \<and> set_immediate_target_by_name c n v = (Some TypeError, c))"
  using assms
  by (simp add: MaxyModule_set_target_def MaxyModule_set_immediate_target_def
      set_target_by_name_def set_immediate_target_by_name_def)

text \<open>The module "tail" of the driving script is of such a class.\<close>

theorem main_target_change_forbidden_witness:
  "name main_controller ''tail'' = Some (ModuleRef 8)
   \<and> set_target_by_name main_controller ''tail'' 5 = (Some TypeError, main_controller)
   \<and> set_immediate_target_by_name main_controller ''tail'' 5 = (Some TypeError, main_controller)
   \<and> MaxyModule_set_target main_controller 8 5 = (Some TypeError, main_controller)
   \<and> MaxyModule_set_immediate_target main_controller 8 5 = (Some TypeError, main_controller)"
proof -
  have h1: "8 < length (index main_controller)" by (simp add: main_controller_length)
  have h2: "\<not> ALLOW_MAIN_MODULE_TARGET_CHANGES (cls (index main_controller ! 8))"
    by (simp add: main_controller_tail)
  have n: "name main_controller ''tail'' = Some (ModuleRef 8)" by code_simp
  show ?thesis
    using main_target_change_forbidden [OF h1 h2, of 5 "''tail''"] n by simp
qed

text \<open>
  C7. The claim is that a set-intensity call that raises a validation error leaves the
  cached intensity as it was. Seventeen modules are registered, so the last has index 16;
  its cached intensity is 0. Assigning intensity 5 to it stores 5 in the cache and then
  raises the range error of the check named "intensity" (which is applied to the module
  index): the cache has changed although the call raised, and nothing was written.
\<close>

theorem set_intensity_caches_before_raising:
  "(let c = (define_modules new_controller
               (replicate 17 (Some \<lparr>def_name = None, module_type = MaxyModule_8x7seg,
                                    sub_module_names = None\<rparr>)))
              \<lparr>serial_conn := Some open_port\<rparr>;
        r = MaxyModule_set_intensity c 16 5
    in module_index (index c ! 16) = 16
       \<and> cached_intensity (index c ! 16) = 0
       \<and> fst r = Some (ValueError ''intensity'' 16 0 15)
       \<and> cached_intensity (index (snd r) ! 16) = 5
       \<and> sink (snd r) = [])"
  by code_simp

text \<open>
  C6. After any sequence of calls starting from a new controller, every cached target lies
  within \<open>TARGET_MIN\<close> and \<open>TARGET_MAX\<close> of its module's class, and every call keeps it so.
  For the sub-module at a valid position and any requested value, after \<open>_set_target\<close> and
  after \<open>set_immediate_target\<close> the cache holds the requested value clamped to that range:
  the upper bound for a value above it, the lower bound for a value below it, the value
  itself otherwise. No range error about the target is raised, and if the call hands
  anything to the port it is one frame whose target field is the clamped value. Each
  setter does write: when the clamped value differs from the cache, the port is open and
  the module index and sub-module id can be encoded (0..63, and 0..7 for \<open>_set_target\<close>,
  0..255 for \<open>set_immediate_target\<close>, which has no range check of the id), the call
  returns without error and appends exactly one frame, of opcode \<open>0x43\<close> or \<open>0x45\<close>,
  carrying the clamped value. When the clamped value equals the cache, both setters return
  the controller unchanged.
\<close>

theorem cached_targets_stay_clamped:
  "targets_in_range (run acts)
   \<and> (targets_in_range c \<longrightarrow> targets_in_range (step c a))
   \<and> (mi < length (index c) \<and> si < length (sub_modules (index c ! mi)) \<longrightarrow>
      (let m = index c ! mi; s = sub_modules m ! si;
           lo = TARGET_MIN (cls m); hi = TARGET_MAX (cls m);
           t = clamp v lo hi;
           r = MaxySubModule_set_target c mi si v;
           r' = MaxySubModule_set_immediate_target c mi si v
       in lo \<le> t \<and> t \<le> hi
          \<and> (v < lo \<longrightarrow> t = lo) \<and> (hi < v \<longrightarrow> t = hi) \<and> (lo \<le> v \<and> v \<le> hi \<longrightarrow> t = v)
          \<and> target_of (snd r) mi si = t
          \<and> target_of (snd r') mi si = t
          \<and> (\<forall>x b d. fst r \<noteq> Some (ValueError ''target'' x b d))
          \<and> (\<forall>x b d. fst r' \<noteq> Some (ValueError ''target'' x b d))
          \<and> (sink (snd r) = sink c \<or>
              sink (snd r) = sink c @
                [frame ([0x43, word_of_int (module_index m), word_of_int (sub_module_id s)] @
                        big_endian 4 t)])
          \<and> (sink (snd r') = sink c \<or>
              sink (snd r') = sink c @
                [frame ([0x45, word_of_int (module_index m), word_of_int (sub_module_id s)] @
                        big_endian 4 t)])
          \<and> (t \<noteq> cached_target s \<and> serial_conn c = Some p \<and> is_open p
               \<and> 0 \<le> module_index m \<and> module_index m \<le> 63
               \<and> 0 \<le> sub_module_id s \<and> sub_module_id s \<le> 7 \<longrightarrow>
              fst r = None
              \<and> sink (snd r) = sink c @
                  [frame ([0x43, word_of_int (module_index m), word_of_int (sub_module_id s)] @
                          big_endian 4 t)])
          \<and> (t \<noteq> cached_target s \<and> serial_conn c = Some p \<and> is_open p
               \<and> 0 \<le> module_index m \<and> module_index m \<le> 63
               \<and> 0 \<le> sub_module_id s \<and> sub_module_id s \<le> 255 \<longrightarrow>
              fst r' = None
              \<and> sink (snd r') = sink c @
                  [frame ([0x45, word_of_int (module_index m), word_of_int (sub_module_id s)] @
                          big_endian 4 t)])
          \<and> (t = cached_target s \<longrightarrow> r = (None, c) \<and> r' = (None, c))))"
proof -
  let ?m = "index c ! mi"
  let ?s = "sub_modules ?m ! si"
  let ?lo = "TARGET_MIN (cls ?m)"
  let ?hi = "TARGET_MAX (cls ?m)"
  let ?t = "clamp v ?lo ?hi"
  let ?r = "MaxySubModule_set_target c mi si v"
  let ?r' = "MaxySubModule_set_immediate_target c mi si v"
  have le: "?lo \<le> ?hi" by (rule TARGET_MIN_le_MAX)
  have b: "?lo \<le> ?t \<and> ?t \<le> ?hi"
    using le by (rule clamp_bounds)
  have cs: "(v < ?lo \<longrightarrow> ?t = ?lo) \<and> (?hi < v \<longrightarrow> ?t = ?hi)
        \<and> (?lo \<le> v \<and> v \<le> ?hi \<longrightarrow> ?t = v)"
    using le by (simp add: clamp_cases)
  have inv: "targets_in_range (run acts)" by (rule targets_in_range_run)
  have st: "targets_in_range c \<longrightarrow> targets_in_range (step c a)"
    by (simp add: targets_in_range_step)
  have ops: ?thesis if h: "mi < length (index c)" "si < length (sub_modules (index c ! mi))"
  proof -
    have sends: "fst ?r = None
              \<and> sink (snd ?r) = sink c @
                  [frame ([0x43, word_of_int (module_index ?m), word_of_int (sub_module_id ?s)] @
                          big_endian 4 ?t)]"
      if ne: "?t \<noteq> cached_target ?s" and p: "serial_conn c = Some p" "is_open p"
        and m: "0 \<le> module_index ?m" "module_index ?m \<le> 63"
        and s: "0 \<le> sub_module_id ?s" "sub_module_id ?s \<le> 7"
    proof -
      from ne have ne': "?t \<noteq> target_of c mi si" by (simp add: target_of_def)
      show ?thesis
        unfolding sub_set_target_sends [OF h ne' p m s]
        using sink_after_write [OF p(1)] by simp
    qed
    have sends': "fst ?r' = None
              \<and> sink (snd ?r') = sink c @
                  [frame ([0x45, word_of_int (module_index ?m), word_of_int (sub_module_id ?s)] @
                          big_endian 4 ?t)]"
      if ne: "?t \<noteq> cached_target ?s" and p: "serial_conn c = Some p" "is_open p"
        and m: "0 \<le> module_index ?m" "module_index ?m \<le> 63"
        and s: "0 \<le> sub_module_id ?s" "sub_module_id ?s \<le> 255"
    proof -
      from ne have ne': "?t \<noteq> target_of c mi si" by (simp add: target_of_def)
      show ?thesis
        unfolding sub_set_immediate_target_sends [OF h ne' p m s]
        using sink_after_write [OF p(1)] by simp
    qed
    have same: "?r = (None, c) \<and> ?r' = (None, c)" if "?t = cached_target ?s"
      using h that
      by (simp add: sub_set_target_same sub_set_immediate_target_same target_of_def)
    show ?thesis
      using inv st b cs sends sends' same
        target_of_sub_set_target [OF h, of v] target_of_sub_set_immediate_target [OF h, of v]
        fst_sub_set_target_no_target_error [OF h, of v]
        fst_sub_set_immediate_target_no_target_error [OF h, of v]
        sink_sub_set_target [OF h, of v] sink_sub_set_immediate_target [OF h, of v]
      unfolding Let_def by blast
  qed
  show ?thesis
  proof (cases "mi < length (index c) \<and> si < length (sub_modules (index c ! mi))")
    case True
    then show ?thesis using ops by blast
  next
    case False
    with inv st show ?thesis by blast
  qed
qed

text \<open>
  The sub-modules "tail1" and "tail2" of the driving script have the range -999..9999: a
  request of 20000 is stored and sent as 9999 by \<open>_set_target\<close>, a request of -5000 is
  stored and sent as -999 by \<open>set_immediate_target\<close> (the bytes \<open>FF FF FC 19\<close>, each of the
  first three with its escape byte).
\<close>

theorem cached_targets_stay_clamped_witness:
  "targets_in_range
     (run [Define_modules main_module_definitions, Connect open_port,
           Set_target_by_name ''tail1'' 20000, Set_immediate_target_by_name ''tail2'' (- 5000)])
   \<and> target_of (snd (MaxySubModule_set_target main_controller 8 0 20000)) 8 0 = 9999
   \<and> target_of (snd (MaxySubModule_set_immediate_target main_controller 8 1 (- 5000))) 8 1 = - 999
   \<and> fst (MaxySubModule_set_target main_controller 8 0 20000) = None
   \<and> sink (snd (MaxySubModule_set_target main_controller 8 0 20000)) =
       [[0xfd, 0x43, 0x08, 0x00, 0x00, 0x00, 0x27, 0x0f, 0xfe]]
   \<and> fst (MaxySubModule_set_immediate_target main_controller 8 1 (- 5000)) = None
   \<and> sink (snd (MaxySubModule_set_immediate_target main_controller 8 1 (- 5000))) =
       [[0xfd, 0x45, 0x08, 0x01, 0xfc, 0xff, 0xfc, 0xff, 0xfc, 0xfc, 0x19, 0xfe]]"
proof -
  have h1: "8 < length (index main_controller)" by (simp add: main_controller_length)
  have h2: "0 < length (sub_modules (index main_controller ! 8))"
    and h3: "1 < length (sub_modules (index main_controller ! 8))"
    by (simp_all add: main_controller_tail)
  have o: "is_open open_port" by (simp add: open_port_def)
  have f: "frame (0x43 # 8 # 0 # big_endian 4 9999) =
           [0xfd, 0x43, 0x08, 0x00, 0x00, 0x00, 0x27, 0x0f, 0xfe]"
    by code_simp
  have f': "frame (0x45 # 8 # 1 # big_endian 4 (- 999)) =
           [0xfd, 0x45, 0x08, 0x01, 0xfc, 0xff, 0xfc, 0xff, 0xfc, 0xfc, 0x19, 0xfe]"
    by code_simp
  show ?thesis
    using cached_targets_stay_clamped
        [of "[Define_modules main_module_definitions, Connect open_port,
              Set_target_by_name ''tail1'' 20000, Set_immediate_target_by_name ''tail2'' (- 5000)]"
            main_controller "Set_sub_target 8 0 20000" 8 0 20000 open_port]
      cached_targets_stay_clamped
        [of "[]" main_controller "Set_sub_target 8 0 20000" 8 1 "- 5000" open_port]
      h1 h2 h3
    by (simp add: Let_def main_controller_tail main_controller_port main_controller_sink
        clamp_def o f f')
qed

end
